theory Spec2Isabelle
  imports Main "HOL-Library.AList"
begin

section \<open>Python text\<close>

text \<open>
  A Python \<^verbatim>\<open>str\<close> is the sequence of its code points, so a text is modelled as the list
  of its code points, each a natural number; \<open>ascii\<close> reads a literal of ASCII characters
  as such a text.

  White space is the set of code points that \<^verbatim>\<open>str.strip()\<close> removes (those for which
  \<^verbatim>\<open>str.isspace\<close> holds). The digits matched by \<^verbatim>\<open>\d\<close> are the ten ASCII digits
  and, beyond ASCII, the decimal digits of the interpreter's Unicode database; that table
  is not part of the program and is a parameter, a predicate on the code points from 128
  on. \<^verbatim>\<open>str.lower()\<close> and \<^verbatim>\<open>str.title()\<close> are modelled on the ASCII letters; a letter
  beyond ASCII is left as it is. (No letter beyond ASCII has one of the letters of
  \<^verbatim>\<open>dataset\<close> in its lower case, so whether the lower case of a text contains \<^verbatim>\<open>data\<close> or
  \<^verbatim>\<open>dataset\<close> is the same in the model and in Python.)
\<close>

type_synonym str = "nat list"

definition ascii :: "string \<Rightarrow> str" where
  "ascii s = map of_char s"

definition py_isspace :: "nat \<Rightarrow> bool" where
  "py_isspace c =
     (c \<in> set [0x09, 0x0A, 0x0B, 0x0C, 0x0D, 0x1C, 0x1D, 0x1E, 0x1F, 0x20, 0x85, 0xA0,
                0x1680, 0x2000, 0x2001, 0x2002, 0x2003, 0x2004, 0x2005, 0x2006, 0x2007,
                0x2008, 0x2009, 0x200A, 0x2028, 0x2029, 0x202F, 0x205F, 0x3000])"

definition str_strip :: "str \<Rightarrow> str" where
  \<comment> \<open>\<^verbatim>\<open>s.strip()\<close>: white space removed at both ends.\<close>
  "str_strip s = rev (dropWhile py_isspace (rev (dropWhile py_isspace s)))"

definition is_digit :: "(nat \<Rightarrow> bool) \<Rightarrow> nat \<Rightarrow> bool" where
  \<comment> \<open>\<open>decimal\<close> is the table of the decimal digits beyond ASCII.\<close>
  "is_digit decimal c = (if c < 128 then c \<in> set (ascii ''0123456789'') else decimal c)"

definition lower_char :: "nat \<Rightarrow> nat" where
  "lower_char c =
     (case map_of (zip (ascii ''ABCDEFGHIJKLMNOPQRSTUVWXYZ'')
                       (ascii ''abcdefghijklmnopqrstuvwxyz'')) c of
        Some d \<Rightarrow> d
      | None \<Rightarrow> c)"

definition upper_char :: "nat \<Rightarrow> nat" where
  "upper_char c =
     (case map_of (zip (ascii ''abcdefghijklmnopqrstuvwxyz'')
                       (ascii ''ABCDEFGHIJKLMNOPQRSTUVWXYZ'')) c of
        Some d \<Rightarrow> d
      | None \<Rightarrow> c)"

definition is_cased :: "nat \<Rightarrow> bool" where
  "is_cased c =
     (c \<in> set (ascii ''ABCDEFGHIJKLMNOPQRSTUVWXYZ'') \<or>
      c \<in> set (ascii ''abcdefghijklmnopqrstuvwxyz''))"

definition str_lower :: "str \<Rightarrow> str" where
  \<comment> \<open>\<^verbatim>\<open>s.lower()\<close>\<close>
  "str_lower s = map lower_char s"

fun title_from :: "bool \<Rightarrow> str \<Rightarrow> str" where
  \<comment> \<open>The flag says whether the previous character was a cased one.\<close>
  "title_from previous_is_cased [] = []"
| "title_from previous_is_cased (c # cs) =
     (if is_cased c
      then (if previous_is_cased then lower_char c else upper_char c) # title_from True cs
      else c # title_from False cs)"

definition str_title :: "str \<Rightarrow> str" where
  \<comment> \<open>\<^verbatim>\<open>s.title()\<close>: every run of letters starts with a capital and goes on in
      lower case.\<close>
  "str_title s = title_from False s"

fun startswith :: "str \<Rightarrow> str \<Rightarrow> bool" where
  \<comment> \<open>\<open>startswith s sub\<close> is \<^verbatim>\<open>s.startswith(sub)\<close>.\<close>
  "startswith s [] = True"
| "startswith [] (d # ds) = False"
| "startswith (c # cs) (d # ds) = (c = d \<and> startswith cs ds)"

fun str_in :: "str \<Rightarrow> str \<Rightarrow> bool" where
  \<comment> \<open>\<open>str_in sub s\<close> is Python's \<^verbatim>\<open>sub in s\<close> on two strings.\<close>
  "str_in sub [] = (sub = [])"
| "str_in sub (c # cs) = (startswith (c # cs) sub \<or> str_in sub cs)"

function str_nat :: "nat \<Rightarrow> str" where
  \<comment> \<open>\<^verbatim>\<open>str(n)\<close> of a non-negative integer: its decimal digits.\<close>
  "str_nat n =
     (if n < 10 then [ascii ''0123456789'' ! n]
      else str_nat (n div 10) @ [ascii ''0123456789'' ! (n mod 10)])"
  by pat_completeness auto
termination
  by (relation "measure id") auto

declare str_nat.simps [simp del]

subsection \<open>\<^verbatim>\<open>re.split(r'\d+\.', s)\<close>\<close>

text \<open>
  The pattern matches a non-empty run of digits followed by a period. The digits are
  matched greedily, and a run that is not followed by a period matches at none of its
  positions, so a match starts at a position exactly when the maximal run of digits
  starting there is non-empty and is followed by a period. \<open>marker_len decimal s\<close> is the
  length of the match at the start of \<open>s\<close>, if there is one.
\<close>

definition marker_len :: "(nat \<Rightarrow> bool) \<Rightarrow> str \<Rightarrow> nat option" where
  "marker_len decimal s =
     (let digits = takeWhile (is_digit decimal) s; rest = dropWhile (is_digit decimal) s
      in if digits \<noteq> [] \<and> startswith rest (ascii ''.'') then Some (length digits + 1)
         else None)"

text \<open>
  \<^verbatim>\<open>re.split\<close> scans from the left for the next match, cuts the text before it off as a
  segment and goes on behind the match; the text behind the last match is the last
  segment. \<open>re_split_from decimal segment s\<close> carries the segment read so far.
\<close>

function re_split_from :: "(nat \<Rightarrow> bool) \<Rightarrow> str \<Rightarrow> str \<Rightarrow> str list" where
  "re_split_from decimal segment [] = [segment]"
| "re_split_from decimal segment (c # cs) =
     (case marker_len decimal (c # cs) of
        Some n \<Rightarrow> segment # re_split_from decimal [] (drop n (c # cs))
      | None \<Rightarrow> re_split_from decimal (segment @ [c]) cs)"
  by pat_completeness auto
termination
  by (relation "measure (\<lambda>(decimal, segment, s). length s)")
     (auto simp: marker_len_def Let_def split: if_splits)

definition re_split :: "(nat \<Rightarrow> bool) \<Rightarrow> str \<Rightarrow> str list" where
  "re_split decimal s = re_split_from decimal [] s"

subsection \<open>\<^verbatim>\<open>datetime.now().strftime('%B %d, %Y')\<close>\<close>

record datetime =
  year :: nat
  month :: nat
  day :: nat
  hour :: nat
  minute :: nat
  second :: nat
  microsecond :: nat

definition month_name :: "nat \<Rightarrow> str" where
  \<comment> \<open>\<^verbatim>\<open>%B\<close>; a \<^verbatim>\<open>datetime\<close> has its month in 1..12.\<close>
  "month_name m =
     (if 1 \<le> m \<and> m \<le> 12
      then [ascii ''January'', ascii ''February'', ascii ''March'', ascii ''April'',
            ascii ''May'', ascii ''June'', ascii ''July'', ascii ''August'',
            ascii ''September'', ascii ''October'', ascii ''November'', ascii ''December'']
           ! (m - 1)
      else [])"

definition two_digits :: "nat \<Rightarrow> str" where
  \<comment> \<open>\<^verbatim>\<open>%d\<close>: the day of the month, padded with a zero to two digits.\<close>
  "two_digits n = (if n < 10 then ascii ''0'' @ str_nat n else str_nat n)"

definition strftime_B_d_Y :: "datetime \<Rightarrow> str" where
  "strftime_B_d_Y t =
     month_name (month t) @ ascii '' '' @ two_digits (day t) @ ascii '', '' @ str_nat (year t)"

section \<open>Data model\<close>

text \<open>A result of the search service, with the attributes the agent reads.\<close>

record exa_result =
  res_title :: str
  res_url :: str
  res_summary :: str
  res_published_date :: "str option"

text \<open>
  An entry of \<^verbatim>\<open>research_results[query]\<close>: a dict with the keys \<^verbatim>\<open>title\<close>, \<^verbatim>\<open>url\<close>
  and \<^verbatim>\<open>snippet\<close>; the key \<^verbatim>\<open>published_date\<close>, which the proposal looks for, may be
  absent (\<open>None\<close>).
\<close>

record insight =
  title :: str
  url :: str
  snippet :: str
  published_date :: "str option"

text \<open>An entry of \<^verbatim>\<open>resource_map[use_case]\<close>: a dict with the keys \<^verbatim>\<open>url\<close> and \<^verbatim>\<open>title\<close>.\<close>

record resource =
  resource_url :: str
  resource_title :: str

text \<open>
  Python dicts keep their keys in insertion order, and assigning to a key that is present
  replaces its value in place: a dict is an association list changed by
  \<^const>\<open>AList.update\<close> and read by \<^const>\<open>map_of\<close>.
\<close>

type_synonym research_results = "(str \<times> insight list) list"

type_synonym resource_map = "(str \<times> resource list) list"

datatype py_exception = PyException str

fun exception_str :: "py_exception \<Rightarrow> str" where
  "exception_str (PyException message) = message"

text \<open>The value of \<^verbatim>\<open>generate_reply\<close>: a text, or \<^verbatim>\<open>None\<close>.\<close>

datatype reply = ReplyText str | ReplyNone

fun py_str :: "reply \<Rightarrow> str" where
  "py_str (ReplyText s) = s"
| "py_str ReplyNone = ascii ''None''"

section \<open>Collaborators and effects\<close>

text \<open>
  A call \<^verbatim>\<open>self.exa.search(query, num_results=n, type=t)\<close>; \<open>search_type\<close> is \<open>None\<close>
  when the call names no type.
\<close>

record search_call =
  query :: str
  num_results :: nat
  search_type :: "str option"

datatype ui_message = StError str | StWarning str

text \<open>
  What a stage leaves behind besides its value: the search calls issued so far, in order,
  and the messages shown by \<^verbatim>\<open>st.error\<close> and \<^verbatim>\<open>st.warning\<close>.
\<close>

record effects =
  searches :: "search_call list"
  ui :: "ui_message list"

text \<open>
  The world outside the agent. The search service answers a call with a list of results
  or raises; its answer may differ from one call to the next, so it is given the number
  of search calls issued before. A fresh assistant answers a prompt with a reply or
  raises; it is given the assistant's name and the prompt. \<^verbatim>\<open>json.dumps\<close> is a parameter,
  \<open>datetime_now\<close> is the reading of the system clock, and \<open>unicode_decimal\<close> is the
  interpreter's table of the decimal digits beyond ASCII.
\<close>

record env =
  exa_search :: "nat \<Rightarrow> search_call \<Rightarrow> py_exception + exa_result list"
  generate_reply :: "str \<Rightarrow> str \<Rightarrow> py_exception + reply"
  json_dumps :: "research_results \<Rightarrow> str"
  datetime_now :: datetime
  unicode_decimal :: "nat \<Rightarrow> bool"

definition search :: "env \<Rightarrow> search_call \<Rightarrow> effects \<Rightarrow> (py_exception + exa_result list) \<times> effects" where
  \<comment> \<open>One call of the search service: its outcome, and the call recorded.\<close>
  "search e call s =
     (exa_search e (length (searches s)) call, s\<lparr>searches := searches s @ [call]\<rparr>)"

section \<open>\<^verbatim>\<open>determine_industry\<close>\<close>

definition industry_prompt :: "str \<Rightarrow> str" where
  "industry_prompt company_name =
     ascii ''\<newline>        Analyze the company '' @ company_name @
     ascii '' and determine its primary industry.\<newline>'' @
     ascii ''        Return only the industry name without any explanation'' @
     ascii '' or additional text.\<newline>'' @
     ascii ''        Example response format: '' @
     ascii [CHR 0x22] @ ascii ''Electric Vehicles'' @ ascii [CHR 0x22] @ ascii '' or '' @
     ascii [CHR 0x22] @ ascii ''Cloud Computing'' @ ascii [CHR 0x22] @
     ascii ''\<newline>        ''"

definition determine_industry :: "env \<Rightarrow> str \<Rightarrow> py_exception + str" where
  "determine_industry e company_name =
     (case generate_reply e (ascii ''industry_analyzer'') (industry_prompt company_name) of
        Inl err \<Rightarrow> Inl err
      | Inr industry \<Rightarrow> Inr (str_strip (py_str industry)))"

section \<open>\<^verbatim>\<open>research_company\<close>\<close>

definition search_queries :: "str \<Rightarrow> str \<Rightarrow> str list" where
  "search_queries company_name industry =
     [industry @ ascii '' industry overview and trends'',
      company_name @ ascii '' strategic focus and market position'',
      industry @ ascii '' technological innovations and future outlook'']"

definition insight_of :: "exa_result \<Rightarrow> insight" where
  \<comment> \<open>\<^verbatim>\<open>{"title": res.title, "url": res.url, "snippet": res.summary}\<close>\<close>
  "insight_of res =
     \<lparr>title = res_title res, url = res_url res, snippet = res_summary res,
      published_date = None\<rparr>"

definition research_error :: "str \<Rightarrow> py_exception \<Rightarrow> ui_message" where
  "research_error q err =
     StError (ascii ''Research error for query '' @ ascii [CHR 0x27] @ q @ ascii [CHR 0x27] @
              ascii '': '' @ exception_str err)"

definition research_call :: "str \<Rightarrow> search_call" where
  \<comment> \<open>\<^verbatim>\<open>self.exa.search(query, num_results=3, type="neural")\<close>\<close>
  "research_call q = \<lparr>query = q, num_results = 3, search_type = Some (ascii ''neural'')\<rparr>"

fun research_loop :: "env \<Rightarrow> str list \<Rightarrow> research_results \<times> effects \<Rightarrow> research_results \<times> effects" where
  \<comment> \<open>The \<^verbatim>\<open>for query in search_queries\<close> loop with its \<^verbatim>\<open>try\<close>.\<close>
  "research_loop e [] (research_results, s) = (research_results, s)"
| "research_loop e (q # qs) (research_results, s) =
     (case search e (research_call q) s of
        (Inr results, s') \<Rightarrow>
          research_loop e qs (AList.update q (map insight_of results) research_results, s')
      | (Inl err, s') \<Rightarrow>
          research_loop e qs (research_results, s'\<lparr>ui := ui s' @ [research_error q err]\<rparr>))"

definition research_company :: "env \<Rightarrow> str \<Rightarrow> effects \<Rightarrow> py_exception + (research_results \<times> str) \<times> effects" where
  \<comment> \<open>The call of \<^verbatim>\<open>determine_industry\<close> is outside the \<^verbatim>\<open>try\<close>: its exception leaves
      \<^verbatim>\<open>research_company\<close>, before any search.\<close>
  "research_company e company_name s =
     (case determine_industry e company_name of
        Inl err \<Rightarrow> Inl err
      | Inr industry \<Rightarrow>
          (case research_loop e (search_queries company_name industry) ([], s) of
             (research_results, s') \<Rightarrow> Inr ((research_results, industry), s')))"

section \<open>\<^verbatim>\<open>generate_use_cases\<close>\<close>

definition use_case_prompt :: "env \<Rightarrow> str \<Rightarrow> str \<Rightarrow> research_results \<Rightarrow> str" where
  "use_case_prompt e company_name industry research_insights =
     ascii ''\<newline>        Based on the analysis of '' @ company_name @
     ascii '' in the '' @ industry @
     ascii '' industry, generate innovative AI/ML use cases.\<newline>'' @
     ascii ''        Research insights: '' @ json_dumps e research_insights @ ascii ''\<newline>'' @
     ascii ''        Focus on:\<newline>'' @
     ascii ''        - Operational efficiency\<newline>'' @
     ascii ''        - Customer experience enhancement\<newline>'' @
     ascii ''        - Technological innovation\<newline>'' @
     ascii ''        Give at least 5 detailed distinct use cases.\<newline>'' @
     ascii ''        Avoid giving code or implementation details.\<newline>'' @
     ascii ''        Provide specific, actionable recommendations.\<newline>        ''"

definition parse_use_cases :: "(nat \<Rightarrow> bool) \<Rightarrow> str \<Rightarrow> str list" where
  \<comment> \<open>\<^verbatim>\<open>[case.strip() for case in re.split(r'\d+\.', text) if case.strip()]\<close>\<close>
  "parse_use_cases decimal text =
     map str_strip (filter (\<lambda>case_text. str_strip case_text \<noteq> []) (re_split decimal text))"

definition generate_use_cases :: "env \<Rightarrow> str \<Rightarrow> str \<Rightarrow> research_results \<Rightarrow> py_exception + str list" where
  "generate_use_cases e company_name industry research_insights =
     (case generate_reply e (ascii ''use_case_generator'')
             (use_case_prompt e company_name industry research_insights) of
        Inl err \<Rightarrow> Inl err
      | Inr use_cases \<Rightarrow> Inr (parse_use_cases (unicode_decimal e) (py_str use_cases)))"

section \<open>\<^verbatim>\<open>collect_resource_assets\<close>\<close>

definition platforms :: "str list" where
  "platforms = [ascii ''kaggle.com/datasets'', ascii ''huggingface.co/datasets'', ascii ''github.com/datasets'']"

definition resource_query :: "str \<Rightarrow> str \<Rightarrow> str" where
  "resource_query use_case platform =
     ascii [CHR 0x22] @ use_case @ ascii [CHR 0x22] @ ascii '' dataset site:'' @ platform"

definition keeps :: "str \<Rightarrow> exa_result \<Rightarrow> bool" where
  \<comment> \<open>The condition of the comprehension that builds \<^verbatim>\<open>platform_resources\<close>.\<close>
  "keeps platform res =
     (str_in platform (res_url res) \<and>
      list_ex (\<lambda>keyword. str_in keyword (str_lower (res_url res))) [ascii ''dataset'', ascii ''data''])"

definition resource_of :: "exa_result \<Rightarrow> resource" where
  "resource_of res = \<lparr>resource_url = res_url res, resource_title = res_title res\<rparr>"

definition platform_resources :: "str \<Rightarrow> exa_result list \<Rightarrow> resource list" where
  "platform_resources platform results = map resource_of (filter (keeps platform) results)"

definition resource_warning :: "str \<Rightarrow> py_exception \<Rightarrow> ui_message" where
  "resource_warning use_case err =
     StWarning (ascii ''Resource collection error for '' @ ascii [CHR 0x27] @ use_case @ ascii [CHR 0x27] @
                ascii '': '' @ exception_str err)"

definition resource_call :: "str \<Rightarrow> str \<Rightarrow> search_call" where
  \<comment> \<open>\<^verbatim>\<open>self.exa.search(query, num_results=3)\<close>\<close>
  "resource_call use_case platform =
     \<lparr>query = resource_query use_case platform, num_results = 3, search_type = None\<rparr>"

fun platform_loop :: "env \<Rightarrow> str \<Rightarrow> str list \<Rightarrow> resource list \<times> effects \<Rightarrow> resource list \<times> effects" where
  \<comment> \<open>The \<^verbatim>\<open>for platform in platforms\<close> loop with its \<^verbatim>\<open>try\<close>.\<close>
  "platform_loop e use_case [] (resources, s) = (resources, s)"
| "platform_loop e use_case (platform # ps) (resources, s) =
     (case search e (resource_call use_case platform) s of
        (Inr results, s') \<Rightarrow>
          platform_loop e use_case ps (resources @ platform_resources platform results, s')
      | (Inl err, s') \<Rightarrow>
          platform_loop e use_case ps
            (resources, s'\<lparr>ui := ui s' @ [resource_warning use_case err]\<rparr>))"

fun use_case_loop :: "env \<Rightarrow> str list \<Rightarrow> resource_map \<times> effects \<Rightarrow> resource_map \<times> effects" where
  \<comment> \<open>The \<^verbatim>\<open>for use_case in use_cases\<close> loop.\<close>
  "use_case_loop e [] (resource_map, s) = (resource_map, s)"
| "use_case_loop e (use_case # ucs) (resource_map, s) =
     (case platform_loop e use_case platforms ([], s) of
        (resources, s') \<Rightarrow>
          use_case_loop e ucs (AList.update use_case (take 3 resources) resource_map, s'))"

definition collect_resource_assets :: "env \<Rightarrow> str list \<Rightarrow> effects \<Rightarrow> resource_map \<times> effects" where
  "collect_resource_assets e use_cases s = use_case_loop e use_cases ([], s)"

section \<open>\<^verbatim>\<open>generate_final_proposal\<close>\<close>

definition date_str :: "insight \<Rightarrow> str" where
  "date_str i =
     (case published_date i of
        Some d \<Rightarrow> if d \<noteq> ascii ''N/A'' then ascii '' ('' @ d @ ascii '')'' else []
      | None \<Rightarrow> [])"

definition add_insight :: "insight \<Rightarrow> str \<Rightarrow> str" where
  \<comment> \<open>The body of \<^verbatim>\<open>for insight in insights\<close>.\<close>
  "add_insight i proposal =
     proposal @ ascii ''#### '' @ title i @ date_str i @ ascii ''\<newline>\<newline>'' @
     snippet i @ ascii ''\<newline>\<newline>'' @
     ascii ''[Read more]('' @ url i @ ascii '')\<newline>\<newline>'' @
     ascii ''---\<newline>\<newline>''"

definition add_query :: "str \<times> insight list \<Rightarrow> str \<Rightarrow> str" where
  \<comment> \<open>The body of \<^verbatim>\<open>for query, insights in research_insights.items()\<close>.\<close>
  "add_query item proposal =
     (case item of (q, insights) \<Rightarrow>
        fold add_insight insights (proposal @ ascii ''### '' @ str_title q @ ascii ''\<newline>\<newline>''))"

definition add_resource :: "resource \<Rightarrow> str \<Rightarrow> str" where
  "add_resource r proposal =
     proposal @ ascii ''- ['' @ resource_title r @ ascii '']('' @ resource_url r @ ascii '')\<newline>''"

definition add_use_case :: "resource_map \<Rightarrow> nat \<times> str \<Rightarrow> str \<Rightarrow> str" where
  \<comment> \<open>The body of \<^verbatim>\<open>for idx, use_case in enumerate(use_cases, 1)\<close>.\<close>
  "add_use_case resource_map item proposal =
     (case item of (idx, use_case) \<Rightarrow>
        (let proposal1 = proposal @ ascii ''### Use Case '' @ str_nat idx @ ascii '': '' @ use_case @
                         ascii ''\<newline>\<newline>'';
             proposal2 =
               (case map_of resource_map use_case of
                  Some resources \<Rightarrow>
                    if resources \<noteq> []
                    then fold add_resource resources
                           (proposal1 @ ascii ''#### Recommended Datasets:\<newline>'')
                    else proposal1
                | None \<Rightarrow> proposal1)
         in proposal2 @ ascii ''\<newline>''))"

definition enumerate1 :: "'a list \<Rightarrow> (nat \<times> 'a) list" where
  \<comment> \<open>\<^verbatim>\<open>enumerate(xs, 1)\<close>\<close>
  "enumerate1 xs = zip [1 ..< Suc (length xs)] xs"

definition generate_final_proposal :: "env \<Rightarrow> str \<Rightarrow> str \<Rightarrow> str list \<Rightarrow> resource_map \<Rightarrow> research_results \<Rightarrow> str" where
  "generate_final_proposal e company_name industry use_cases resource_map research_insights =
     (let proposal0 = ascii ''# AI Strategy Analysis for '' @ company_name @ ascii ''\<newline>\<newline>'';
          proposal1 = proposal0 @ ascii ''## Industry: '' @ industry @ ascii ''\<newline>\<newline>'';
          proposal2 = proposal1 @ ascii ''*Generated on '' @ strftime_B_d_Y (datetime_now e) @
                      ascii ''*\<newline>\<newline>'';
          proposal3 = proposal2 @ ascii ''## Market Research Insights\<newline>'';
          proposal4 = fold add_query research_insights proposal3;
          proposal5 = proposal4 @ ascii ''## Recommended AI/ML Use Cases\<newline>\<newline>''
      in fold (add_use_case resource_map) (enumerate1 use_cases) proposal5)"

section \<open>The run of the four stages\<close>

text \<open>
  The calls that \<^verbatim>\<open>main\<close> makes on a constructed agent once a company name is entered,
  in their order and with no \<^verbatim>\<open>try\<close> around them; the progress widgets between them
  are left out. An exception of a stage ends the run, with the effects so far.
\<close>

record analysis =
  a_industry :: str
  a_research_insights :: research_results
  a_use_cases :: "str list"
  a_resource_map :: resource_map
  a_final_proposal :: str

definition run_analysis :: "env \<Rightarrow> str \<Rightarrow> effects \<Rightarrow> (py_exception + analysis) \<times> effects" where
  "run_analysis e company_name s =
     (case research_company e company_name s of
        Inl err \<Rightarrow> (Inl err, s)
      | Inr ((research_insights, industry), s1) \<Rightarrow>
          (case generate_use_cases e company_name industry research_insights of
             Inl err \<Rightarrow> (Inl err, s1)
           | Inr use_cases \<Rightarrow>
               (case collect_resource_assets e use_cases s1 of
                  (resource_map, s2) \<Rightarrow>
                    (Inr \<lparr>a_industry = industry,
                          a_research_insights = research_insights,
                          a_use_cases = use_cases,
                          a_resource_map = resource_map,
                          a_final_proposal =
                            generate_final_proposal e company_name industry use_cases
                              resource_map research_insights\<rparr>, s2))))"

section \<open>Outcomes of the research searches\<close>

text \<open>
  \<open>research_outcome e s qs k\<close> is the answer of the search service to the \<open>k\<close>-th query
  of \<open>qs\<close> when the stage starts with the effects \<open>s\<close>, and \<open>failed_queries\<close> are the
  positions of the queries whose call raised.
\<close>

definition research_outcome :: "env \<Rightarrow> effects \<Rightarrow> str list \<Rightarrow> nat \<Rightarrow> py_exception + exa_result list" where
  "research_outcome e s qs k = exa_search e (length (searches s) + k) (research_call (qs ! k))"

definition failed_queries :: "env \<Rightarrow> effects \<Rightarrow> str list \<Rightarrow> nat list" where
  "failed_queries e s qs = filter (\<lambda>k. isl (research_outcome e s qs k)) [0 ..< length qs]"

section \<open>Outcomes of the resource searches\<close>

text \<open>
  \<open>last_index xs x\<close> is the position of the last occurrence of \<open>x\<close> in \<open>xs\<close>. Every use
  case costs three search calls, so the calls of the use case at position \<open>i\<close> are the
  calls number \<open>n + 3 * i\<close>, \<open>n + 3 * i + 1\<close> and \<open>n + 3 * i + 2\<close> when \<open>n\<close> calls were
  issued before the stage. \<open>platform_yield e n use_case k\<close> is what the \<open>k\<close>-th platform
  contributes to a use case whose first call is the call number \<open>n\<close>: the filtered
  results of its search, or nothing when the search raised.
\<close>

fun last_index :: "'a list \<Rightarrow> 'a \<Rightarrow> nat" where
  "last_index [] x = 0"
| "last_index (y # ys) x = (if x \<in> set ys then Suc (last_index ys x) else 0)"

definition platform_yield :: "env \<Rightarrow> nat \<Rightarrow> str \<Rightarrow> nat \<Rightarrow> resource list" where
  "platform_yield e n use_case k =
     (case exa_search e (n + k) (resource_call use_case (platforms ! k)) of
        Inl err \<Rightarrow> []
      | Inr results \<Rightarrow> platform_resources (platforms ! k) results)"

section \<open>Substrings and markers, by their meaning\<close>

text \<open>
  \<open>substring sub s\<close>: the text \<open>s\<close> contains \<open>sub\<close>. \<open>substring_ci token s\<close>: \<open>s\<close>
  contains the token up to the case of the letters.
\<close>

definition substring :: "str \<Rightarrow> str \<Rightarrow> bool" where
  "substring sub s = (\<exists>pre post. s = pre @ sub @ post)"

definition substring_ci :: "str \<Rightarrow> str \<Rightarrow> bool" where
  "substring_ci token s = (\<exists>pre mid post. s = pre @ mid @ post \<and> str_lower mid = token)"

text \<open>
  A numbered-list marker is a decimal number followed by a period, and a text has a
  marker when one occurs in it. \<open>marker_somewhere\<close> looks for one with \<open>marker_len\<close>.
\<close>

definition is_marker :: "(nat \<Rightarrow> bool) \<Rightarrow> str \<Rightarrow> bool" where
  "is_marker decimal m =
     (\<exists>digits. digits \<noteq> [] \<and> list_all (is_digit decimal) digits \<and> m = digits @ ascii ''.'')"

definition has_marker :: "(nat \<Rightarrow> bool) \<Rightarrow> str \<Rightarrow> bool" where
  "has_marker decimal s = (\<exists>pre m post. s = pre @ m @ post \<and> is_marker decimal m)"

fun marker_somewhere :: "(nat \<Rightarrow> bool) \<Rightarrow> str \<Rightarrow> bool" where
  "marker_somewhere decimal [] = False"
| "marker_somewhere decimal (c # cs) =
     (marker_len decimal (c # cs) \<noteq> None \<or> marker_somewhere decimal cs)"

section \<open>Inputs of the examples\<close>

definition arabic_indic :: "nat \<Rightarrow> bool" where
  \<comment> \<open>A table of decimal digits that knows the Arabic-Indic digits, U+0660 to U+0669.\<close>
  "arabic_indic c = (0x660 \<le> c \<and> c \<le> 0x669)"

definition demo_clock :: datetime where
  "demo_clock = \<lparr>year = 2024, month = 3, day = 5, hour = 14, minute = 30, second = 0, microsecond = 0\<rparr>"

definition demo_result :: exa_result where
  "demo_result = \<lparr>res_title = ascii ''Robot arms in 2024'', res_url = ascii ''https://example.com/robots'',
                   res_summary = ascii ''Cobots are spreading.'', res_published_date = Some (ascii ''2024-01-15'')\<rparr>"

definition one_failure_env :: env where
  "one_failure_env =
     \<lparr>exa_search = (\<lambda>n call. if n = 1 then Inl (PyException (ascii ''timeout'')) else Inr [demo_result]),
      generate_reply = (\<lambda>name prompt. Inr (ReplyText (ascii '' Industrial Robotics\<newline>''))),
      json_dumps = (\<lambda>research_insights. (ascii ''{}'')),
      datetime_now = demo_clock,
      unicode_decimal = arabic_indic\<rparr>"

definition no_effects :: effects where
  "no_effects = \<lparr>searches = [], ui = []\<rparr>"

definition empty_reply_env :: env where
  "empty_reply_env =
     \<lparr>exa_search = (\<lambda>n call. Inr []),
      generate_reply = (\<lambda>name prompt. Inr (ReplyText [])),
      json_dumps = (\<lambda>research_insights. (ascii ''{}'')),
      datetime_now = demo_clock,
      unicode_decimal = arabic_indic\<rparr>"

definition llm_down_env :: env where
  "llm_down_env =
     \<lparr>exa_search = (\<lambda>n call. Inr [demo_result]),
      generate_reply = (\<lambda>name prompt. Inl (PyException (ascii ''connection refused''))),
      json_dumps = (\<lambda>research_insights. (ascii ''{}'')),
      datetime_now = demo_clock,
      unicode_decimal = arabic_indic\<rparr>"

definition hit :: "str \<Rightarrow> exa_result" where
  "hit u = \<lparr>res_title = ascii ''Dataset'', res_url = u, res_summary = [], res_published_date = None\<rparr>"

definition resources_env :: env where
  "resources_env =
     \<lparr>exa_search = (\<lambda>n call.
        if n = 0 then Inr [hit (ascii ''kaggle.com/datasets/x/robotics-data''), hit (ascii ''kaggle.com/notebooks/x'')]
        else if n = 1 then Inl (PyException (ascii ''timeout''))
        else Inr [hit (ascii ''github.com/datasets/a''), hit (ascii ''github.com/datasets/b''),
                  hit (ascii ''github.com/datasets/c'')]),
      generate_reply = (\<lambda>name prompt. Inr (ReplyText (ascii ''Industrial Robotics''))),
      json_dumps = (\<lambda>research_insights. (ascii ''{}'')),
      datetime_now = demo_clock,
      unicode_decimal = arabic_indic\<rparr>"

definition search_down_env :: env where
  "search_down_env =
     \<lparr>exa_search = (\<lambda>n call. Inl (PyException (ascii ''quota exceeded''))),
      generate_reply = (\<lambda>name prompt. Inr (ReplyText (ascii ''Industrial Robotics''))),
      json_dumps = (\<lambda>research_insights. (ascii ''{}'')),
      datetime_now = demo_clock,
      unicode_decimal = arabic_indic\<rparr>"

definition dated_env :: env where
  "dated_env =
     \<lparr>exa_search = (\<lambda>n call. if n = 0 then Inr [demo_result] else Inr []),
      generate_reply = (\<lambda>name prompt.
         if name = ascii ''industry_analyzer'' then Inr (ReplyText (ascii ''Industrial Robotics''))
         else Inl (PyException (ascii ''rate limit''))),
      json_dumps = (\<lambda>research_insights. (ascii ''{}'')),
      datetime_now = demo_clock,
      unicode_decimal = arabic_indic\<rparr>"

definition dated_insights :: research_results where
  "dated_insights =
     [(ascii ''Industrial Robotics industry overview and trends'',
       [\<lparr>title = ascii ''Robot arms in 2024'', url = ascii ''https://example.com/robots'',
         snippet = ascii ''Cobots are spreading.'', published_date = None\<rparr>]),
      (ascii ''Acme Robotics strategic focus and market position'', []),
      (ascii ''Industrial Robotics technological innovations and future outlook'', [])]"

definition dated_effects :: effects where
  "dated_effects =
     \<lparr>searches = map research_call
        [ascii ''Industrial Robotics industry overview and trends'',
         ascii ''Acme Robotics strategic focus and market position'',
         ascii ''Industrial Robotics technological innovations and future outlook''],
      ui = []\<rparr>"

definition next_day_env :: env where
  "next_day_env = dated_env\<lparr>datetime_now := demo_clock\<lparr>day := 6\<rparr>\<rparr>"

definition evening_env :: env where
  "evening_env = search_down_env\<lparr>datetime_now := demo_clock\<lparr>hour := 23, minute := 59\<rparr>\<rparr>"

definition single_reply_env :: env where
  "single_reply_env =
     \<lparr>exa_search = (\<lambda>n call. Inr []),
      generate_reply = (\<lambda>name prompt. Inr (ReplyText (ascii ''A single unified recommendation engine.''))),
      json_dumps = (\<lambda>research_insights. (ascii ''{}'')),
      datetime_now = demo_clock,
      unicode_decimal = arabic_indic\<rparr>"

section \<open>The research stage\<close>

lemma search_queries_distinct: "distinct (search_queries c i)"
proof -
  have a: "i @ ascii '' industry overview and trends'' \<noteq> c @ ascii '' strategic focus and market position''"
  proof
    assume "i @ ascii '' industry overview and trends'' = c @ ascii '' strategic focus and market position''"
    then have "last (i @ ascii '' industry overview and trends'') = last (c @ ascii '' strategic focus and market position'')" by simp
    then show False by (simp add: ascii_def)
  qed
  have b: "c @ ascii '' strategic focus and market position'' \<noteq> i @ ascii '' technological innovations and future outlook''"
  proof
    assume "c @ ascii '' strategic focus and market position'' = i @ ascii '' technological innovations and future outlook''"
    then have "last (c @ ascii '' strategic focus and market position'') = last (i @ ascii '' technological innovations and future outlook'')" by simp
    then show False by (simp add: ascii_def)
  qed
  show ?thesis using a b by (simp add: search_queries_def ascii_def)
qed

lemma upt3: "[0..<3] = [0,1,2]" by (simp add: numeral_3_eq_3 upt_rec)

lemma less3: "(k < (3::nat)) = (k = 0 \<or> k = 1 \<or> k = 2)" by auto

lemma research_loop_three:
  assumes "distinct [q0, q1, q2]" and "research_loop e [q0, q1, q2] ([], s) = (m, s')"
  shows "searches s' = searches s @ map research_call [q0, q1, q2]"
    and "\<forall>k<3. map_of m ([q0, q1, q2] ! k) =
           (case research_outcome e s [q0,q1,q2] k of Inl err \<Rightarrow> None | Inr rs \<Rightarrow> Some (map insight_of rs))"
    and "map fst m = filter (\<lambda>q. q \<in> dom (map_of m)) [q0, q1, q2]"
    and "length m + length (failed_queries e s [q0, q1, q2]) = 3"
    and "length (ui s') = length (ui s) + length (failed_queries e s [q0, q1, q2])"
    and "\<forall>k<3. \<forall>err. failed_queries e s [q0, q1, q2] = [k] \<and> research_outcome e s [q0,q1,q2] k = Inl err
           \<longrightarrow> ui s' = ui s @ [research_error ([q0, q1, q2] ! k) err]"
  using assms
  by (auto simp: search_def research_outcome_def failed_queries_def upt3 less3 split: sum.splits prod.splits)

lemma research_company_loop:
  assumes "determine_industry e c = Inr industry"
  shows "\<exists>m s'. research_company e c s = Inr ((m, industry), s') \<and>
            research_loop e (search_queries c industry) ([], s) = (m, s')"
  using assms by (auto simp: research_company_def split: prod.splits)

text \<open>
  Claim C4. Whatever the three search calls of the research stage do, all three are
  issued; a query whose call raised is not a key of the returned dict (it is not there
  with an empty list either), a query whose call returned has its mapped results; the
  dict has one entry per call that returned and the stage shows one error message per
  call that raised. When exactly one call raises, the dict has two entries, one message
  is shown, and \<^verbatim>\<open>research_company\<close> returns; the run then goes on to its end
  whenever the use-case generation returns.
\<close>

theorem research_company_partial_failure:
  assumes "determine_industry e company_name = Inr industry"
  shows "\<exists>m s'. research_company e company_name s = Inr ((m, industry), s') \<and>
           searches s' = searches s @ map research_call (search_queries company_name industry) \<and>
           (\<forall>k<3. case research_outcome e s (search_queries company_name industry) k of
                     Inl err \<Rightarrow> search_queries company_name industry ! k \<notin> fst ` set m
                   | Inr results \<Rightarrow> map_of m (search_queries company_name industry ! k) =
                                     Some (map insight_of results)) \<and>
           length m + length (failed_queries e s (search_queries company_name industry)) = 3 \<and>
           length (ui s') =
             length (ui s) + length (failed_queries e s (search_queries company_name industry)) \<and>
           (length (failed_queries e s (search_queries company_name industry)) = 1 \<longrightarrow>
              length m = 2 \<and> length (ui s') = length (ui s) + 1) \<and>
           (\<forall>use_cases. generate_use_cases e company_name industry m = Inr use_cases \<longrightarrow>
              (\<exists>a s2. run_analysis e company_name s = (Inr a, s2)))"
proof -
  let ?qs = "search_queries company_name industry"
  obtain q0 q1 q2 where qs: "?qs = [q0, q1, q2]"
    by (simp add: search_queries_def)
  have d: "distinct [q0, q1, q2]"
    using search_queries_distinct [of company_name industry] by (simp only: qs)
  obtain m s' where rc: "research_company e company_name s = Inr ((m, industry), s')"
    and loop: "research_loop e [q0, q1, q2] ([], s) = (m, s')"
    using research_company_loop [OF assms, of s] by (auto simp only: qs)
  note facts = research_loop_three [OF d loop]
  have absent: "\<forall>k<3. case research_outcome e s [q0, q1, q2] k of
                     Inl err \<Rightarrow> [q0, q1, q2] ! k \<notin> fst ` set m
                   | Inr results \<Rightarrow> map_of m ([q0, q1, q2] ! k) = Some (map insight_of results)"
  proof (intro allI impI)
    fix k :: nat assume "k < 3"
    with facts(2) have "map_of m ([q0, q1, q2] ! k) =
           (case research_outcome e s [q0,q1,q2] k of Inl err \<Rightarrow> None | Inr rs \<Rightarrow> Some (map insight_of rs))"
      by blast
    then show "case research_outcome e s [q0, q1, q2] k of
                     Inl err \<Rightarrow> [q0, q1, q2] ! k \<notin> fst ` set m
                   | Inr results \<Rightarrow> map_of m ([q0, q1, q2] ! k) = Some (map insight_of results)"
      by (cases "research_outcome e s [q0,q1,q2] k") (simp_all add: map_of_eq_None_iff)
  qed
  have one: "length (failed_queries e s [q0, q1, q2]) = 1 \<longrightarrow>
              length m = 2 \<and> length (ui s') = length (ui s) + 1"
    using facts(4) facts(5) by simp
  have run: "\<forall>use_cases. generate_use_cases e company_name industry m = Inr use_cases \<longrightarrow>
              (\<exists>a s2. run_analysis e company_name s = (Inr a, s2))"
    using rc by (auto simp: run_analysis_def split: prod.splits)
  show ?thesis
    unfolding qs using rc facts(1) absent facts(4) facts(5) one run by blast
qed

theorem research_company_partial_failure_witness:
  "determine_industry one_failure_env (ascii ''Acme Robotics'') = Inr (ascii ''Industrial Robotics'') \<and>
   failed_queries one_failure_env no_effects
     (search_queries (ascii ''Acme Robotics'') (ascii ''Industrial Robotics'')) = [1] \<and>
   (\<exists>m s'. research_company one_failure_env (ascii ''Acme Robotics'') no_effects =
              Inr ((m, ascii ''Industrial Robotics''), s') \<and>
            map fst m = [ascii ''Industrial Robotics industry overview and trends'',
                         ascii ''Industrial Robotics technological innovations and future outlook''] \<and>
            length m = 2 \<and> length (ui s') = 1 \<and>
            generate_use_cases one_failure_env (ascii ''Acme Robotics'') (ascii ''Industrial Robotics'') m =
              Inr [ascii ''Industrial Robotics'']) \<and>
   (\<exists>a s2. run_analysis one_failure_env (ascii ''Acme Robotics'') no_effects = (Inr a, s2))"
proof -
  have h: "determine_industry one_failure_env (ascii ''Acme Robotics'') = Inr (ascii ''Industrial Robotics'')"
    by (simp add: determine_industry_def one_failure_env_def str_strip_def py_isspace_def ascii_def)
  have f: "failed_queries one_failure_env no_effects
             (search_queries (ascii ''Acme Robotics'') (ascii ''Industrial Robotics'')) = [1]"
    by (simp add: failed_queries_def research_outcome_def one_failure_env_def no_effects_def
          search_queries_def upt3 ascii_def)
  have g: "generate_use_cases one_failure_env (ascii ''Acme Robotics'') (ascii ''Industrial Robotics'') m =
             Inr [ascii ''Industrial Robotics'']" for m
    by (simp add: generate_use_cases_def one_failure_env_def parse_use_cases_def re_split_def
          marker_len_def is_digit_def str_strip_def py_isspace_def ascii_def)
  from research_company_partial_failure [OF h, of no_effects]
  obtain m s' where *: "research_company one_failure_env (ascii ''Acme Robotics'') no_effects =
              Inr ((m, ascii ''Industrial Robotics''), s')" "length m = 2" "length (ui s') = 1"
     and run: "\<exists>a s2. run_analysis one_failure_env (ascii ''Acme Robotics'') no_effects = (Inr a, s2)"
    using f g by (auto simp: no_effects_def)
  have "map fst m = [ascii ''Industrial Robotics industry overview and trends'',
                         ascii ''Industrial Robotics technological innovations and future outlook'']"
    using *(1) h
    by (auto simp: research_company_def search_queries_def search_def one_failure_env_def
         no_effects_def research_call_def ascii_def)
  with * h f g run show ?thesis by simp
qed

text \<open>
  Claim C5. For every company name and every industry label that classification returns,
  the research stage issues exactly the three queries made from the templates, in their
  order, each for 3 results in neural mode, and the returned dict has at most 3 keys, all
  distinct and all among the three queries.
\<close>

theorem research_company_queries:
  assumes "determine_industry e company_name = Inr industry"
  shows "\<exists>m s'. research_company e company_name s = Inr ((m, industry), s') \<and>
           searches s' = searches s @
             [research_call (industry @ ascii '' industry overview and trends''),
              research_call (company_name @ ascii '' strategic focus and market position''),
              research_call (industry @ ascii '' technological innovations and future outlook'')] \<and>
           length m \<le> 3 \<and> distinct (map fst m) \<and>
           fst ` set m \<subseteq> {industry @ ascii '' industry overview and trends'',
                            company_name @ ascii '' strategic focus and market position'',
                            industry @ ascii '' technological innovations and future outlook''}"
proof -
  let ?qs = "search_queries company_name industry"
  have d: "distinct ?qs" by (rule search_queries_distinct)
  obtain m s' where rc: "research_company e company_name s = Inr ((m, industry), s')"
    and loop: "research_loop e ?qs ([], s) = (m, s')"
    using research_company_loop [OF assms, of s] by auto
  have qs: "?qs = [industry @ ascii '' industry overview and trends'',
              company_name @ ascii '' strategic focus and market position'',
              industry @ ascii '' technological innovations and future outlook'']"
    by (simp add: search_queries_def)
  note facts = research_loop_three [OF d [unfolded qs] loop [unfolded qs]]
  have keys: "map fst m = filter (\<lambda>q. q \<in> dom (map_of m)) ?qs"
    using facts(3) by (simp only: qs)
  have "distinct (map fst m)"
    unfolding keys using d by (rule distinct_filter)
  moreover have "length (map fst m) \<le> length ?qs"
    unfolding keys by (rule length_filter_le)
  then have "length m \<le> 3" by (simp add: search_queries_def)
  moreover have "set (map fst m) \<subseteq> set ?qs"
    unfolding keys by (rule filter_is_subset)
  then have "fst ` set m \<subseteq> {industry @ ascii '' industry overview and trends'',
                            company_name @ ascii '' strategic focus and market position'',
                            industry @ ascii '' technological innovations and future outlook''}"
    by (simp add: qs)
  ultimately show ?thesis using rc facts(1) by simp
qed

theorem research_company_queries_witness:
  "determine_industry one_failure_env (ascii ''Acme Robotics'') = Inr (ascii ''Industrial Robotics'') \<and>
   (\<exists>m s'. research_company one_failure_env (ascii ''Acme Robotics'') no_effects =
              Inr ((m, ascii ''Industrial Robotics''), s') \<and>
            map query (searches s') =
              [ascii ''Industrial Robotics industry overview and trends'',
               ascii ''Acme Robotics strategic focus and market position'',
               ascii ''Industrial Robotics technological innovations and future outlook''] \<and>
            length m \<le> 3)"
proof -
  have h: "determine_industry one_failure_env (ascii ''Acme Robotics'') = Inr (ascii ''Industrial Robotics'')"
    by (simp add: determine_industry_def one_failure_env_def str_strip_def py_isspace_def ascii_def)
  show ?thesis
    using h research_company_queries [OF h, of no_effects]
    by (auto simp: no_effects_def research_call_def ascii_def)
qed

section \<open>Classification\<close>

text \<open>
  Claim C2, as stated, fails for an empty reply: the empty label is returned.
\<close>

theorem determine_industry_empty_reply_counterexample:
  "generate_reply empty_reply_env (ascii ''industry_analyzer'') (industry_prompt (ascii ''Acme Robotics'')) =
     Inr (ReplyText []) \<and>
   determine_industry empty_reply_env (ascii ''Acme Robotics'') = Inr []"
  by (simp add: determine_industry_def empty_reply_env_def str_strip_def ascii_def)

text \<open>
  Claim C2, amended. When the assistant raises, the exception leaves
  \<^verbatim>\<open>determine_industry\<close> and \<^verbatim>\<open>research_company\<close> as it is, before any search, and
  the run ends with it: no industry label is returned. When the assistant returns the
  empty text, classification returns the empty label.
\<close>

theorem determine_industry_outcomes:
  "(generate_reply e (ascii ''industry_analyzer'') (industry_prompt company_name) = Inl err \<longrightarrow>
      determine_industry e company_name = Inl err \<and>
      research_company e company_name s = Inl err \<and>
      run_analysis e company_name s = (Inl err, s)) \<and>
   (generate_reply e (ascii ''industry_analyzer'') (industry_prompt company_name) = Inr (ReplyText []) \<longrightarrow>
      determine_industry e company_name = Inr [])"
  by (simp add: determine_industry_def research_company_def run_analysis_def str_strip_def)

theorem determine_industry_outcomes_witness:
  "generate_reply llm_down_env (ascii ''industry_analyzer'') (industry_prompt (ascii ''Acme Robotics'')) =
     Inl (PyException (ascii ''connection refused'')) \<and>
   determine_industry llm_down_env (ascii ''Acme Robotics'') = Inl (PyException (ascii ''connection refused'')) \<and>
   research_company llm_down_env (ascii ''Acme Robotics'') no_effects =
     Inl (PyException (ascii ''connection refused'')) \<and>
   run_analysis llm_down_env (ascii ''Acme Robotics'') no_effects =
     (Inl (PyException (ascii ''connection refused'')), no_effects) \<and>
   generate_reply empty_reply_env (ascii ''industry_analyzer'') (industry_prompt (ascii ''Acme Robotics'')) =
     Inr (ReplyText []) \<and>
   determine_industry empty_reply_env (ascii ''Acme Robotics'') = Inr []"
proof -
  have a: "generate_reply llm_down_env (ascii ''industry_analyzer'') (industry_prompt (ascii ''Acme Robotics'')) =
     Inl (PyException (ascii ''connection refused''))"
    by (simp add: llm_down_env_def)
  have b: "generate_reply empty_reply_env (ascii ''industry_analyzer'') (industry_prompt (ascii ''Acme Robotics'')) =
     Inr (ReplyText [])"
    by (simp add: empty_reply_env_def)
  show ?thesis
    using a b
      determine_industry_outcomes [of llm_down_env "ascii ''Acme Robotics''" "PyException (ascii ''connection refused'')" no_effects]
      determine_industry_outcomes [of empty_reply_env "ascii ''Acme Robotics''" "PyException (ascii ''connection refused'')" no_effects]
    by simp
qed

section \<open>The resource collector\<close>

lemma last_index_nth: "x \<in> set xs \<Longrightarrow> last_index xs x < length xs \<and> xs ! last_index xs x = x"
  by (induction xs) auto

lemma last_index_last: "last_index xs x < j \<Longrightarrow> j < length xs \<Longrightarrow> xs ! j \<noteq> x"
proof (induction xs arbitrary: j)
  case Nil
  then show ?case by simp
next
  case (Cons y ys)
  then show ?case by (cases j) (auto split: if_splits)
qed

lemma platform_loop_platforms:
  assumes "platform_loop e u platforms ([], s) = (rs, s')"
  shows "rs = platform_yield e (length (searches s)) u 0 @ platform_yield e (length (searches s)) u 1
              @ platform_yield e (length (searches s)) u 2"
    and "searches s' = searches s @ map (resource_call u) platforms"
  using assms
  by (auto simp: platforms_def search_def platform_yield_def split: sum.splits prod.splits)

lemma use_case_loop_inv:
  "use_case_loop e ucs (m0, s) = (m, s') \<Longrightarrow>
     length (searches s') = length (searches s) + 3 * length ucs \<and>
     fst ` set m = fst ` set m0 \<union> set ucs \<and>
     (distinct (map fst m0) \<longrightarrow> distinct (map fst m)) \<and>
     (\<forall>u. map_of m u =
        (if u \<in> set ucs
         then Some (take 3 (platform_yield e (length (searches s) + 3 * last_index ucs u) u 0 @
                            platform_yield e (length (searches s) + 3 * last_index ucs u) u 1 @
                            platform_yield e (length (searches s) + 3 * last_index ucs u) u 2))
         else map_of m0 u))"
proof (induction ucs arbitrary: m0 s)
  case Nil
  then show ?case by simp
next
  case (Cons a ucs)
  obtain rs s1 where pl: "platform_loop e a platforms ([], s) = (rs, s1)"
    by (cases "platform_loop e a platforms ([], s)")
  from Cons.prems pl have rest: "use_case_loop e ucs (AList.update a (take 3 rs) m0, s1) = (m, s')"
    by simp
  note ih = Cons.IH [OF rest]
  note p = platform_loop_platforms [OF pl]
  have len1: "length (searches s1) = length (searches s) + 3"
    using p(2) by (simp add: platforms_def ascii_def)
  show ?case
    using ih p(1) len1
    by (auto simp: dom_update distinct_update update_conv' add.assoc)
qed

text \<open>
  Claim C8. Every list in the dict returned by \<^verbatim>\<open>collect_resource_assets\<close> has at most
  3 entries, its key is one of the use cases, and the list is the first 3 of what the
  three platforms contributed, in the order of the platforms: the filtered results of the
  first platform's search, then the second's, then the third's, a platform whose search
  raised contributing nothing. For a text that occurs more than once among the use cases
  the searches are those of its last occurrence.
\<close>

theorem collect_resource_assets_first_three:
  assumes "collect_resource_assets e use_cases s = (resource_map, s')"
      and "map_of resource_map use_case = Some resources"
  shows "length resources \<le> 3 \<and> use_case \<in> set use_cases \<and>
         (let n = length (searches s) + 3 * last_index use_cases use_case
          in resources = take 3 (platform_yield e n use_case 0 @ platform_yield e n use_case 1 @
                                 platform_yield e n use_case 2))"
proof -
  from assms(1) have loop: "use_case_loop e use_cases ([], s) = (resource_map, s')"
    by (simp add: collect_resource_assets_def)
  note inv = use_case_loop_inv [OF loop]
  from inv have look: "map_of resource_map use_case =
        (if use_case \<in> set use_cases
         then Some (take 3 (platform_yield e (length (searches s) + 3 * last_index use_cases use_case) use_case 0 @
                            platform_yield e (length (searches s) + 3 * last_index use_cases use_case) use_case 1 @
                            platform_yield e (length (searches s) + 3 * last_index use_cases use_case) use_case 2))
         else map_of [] use_case)"
    by blast
  with assms(2) have mem: "use_case \<in> set use_cases"
    by (auto split: if_splits)
  with look assms(2) have eq: "resources =
     take 3 (platform_yield e (length (searches s) + 3 * last_index use_cases use_case) use_case 0 @
             platform_yield e (length (searches s) + 3 * last_index use_cases use_case) use_case 1 @
             platform_yield e (length (searches s) + 3 * last_index use_cases use_case) use_case 2)"
    by simp
  then have "length resources \<le> 3" by simp
  with mem eq show ?thesis by (simp add: Let_def)
qed

theorem collect_resource_assets_first_three_witness:
  "collect_resource_assets resources_env [ascii ''Predict churn.''] no_effects =
     ([(ascii ''Predict churn.'',
        [resource_of (hit (ascii ''kaggle.com/datasets/x/robotics-data'')),
         resource_of (hit (ascii ''github.com/datasets/a'')),
         resource_of (hit (ascii ''github.com/datasets/b''))])],
      \<lparr>searches = map (resource_call (ascii ''Predict churn.'')) platforms,
       ui = [resource_warning (ascii ''Predict churn.'') (PyException (ascii ''timeout''))]\<rparr>) \<and>
   length [resource_of (hit (ascii ''kaggle.com/datasets/x/robotics-data'')),
           resource_of (hit (ascii ''github.com/datasets/a'')),
           resource_of (hit (ascii ''github.com/datasets/b''))] \<le> 3 \<and>
   ascii ''Predict churn.'' \<in> set [ascii ''Predict churn.'']"
proof -
  have c: "collect_resource_assets resources_env [ascii ''Predict churn.''] no_effects =
     ([(ascii ''Predict churn.'',
        [resource_of (hit (ascii ''kaggle.com/datasets/x/robotics-data'')),
         resource_of (hit (ascii ''github.com/datasets/a'')),
         resource_of (hit (ascii ''github.com/datasets/b''))])],
      \<lparr>searches = map (resource_call (ascii ''Predict churn.'')) platforms,
       ui = [resource_warning (ascii ''Predict churn.'') (PyException (ascii ''timeout''))]\<rparr>)"
    by (simp add: collect_resource_assets_def platforms_def search_def resources_env_def
          no_effects_def platform_resources_def keeps_def hit_def str_lower_def lower_char_def ascii_def)
  have l: "map_of [(ascii ''Predict churn.'',
        [resource_of (hit (ascii ''kaggle.com/datasets/x/robotics-data'')),
         resource_of (hit (ascii ''github.com/datasets/a'')),
         resource_of (hit (ascii ''github.com/datasets/b''))])] (ascii ''Predict churn.'') =
      Some [resource_of (hit (ascii ''kaggle.com/datasets/x/robotics-data'')),
         resource_of (hit (ascii ''github.com/datasets/a'')),
         resource_of (hit (ascii ''github.com/datasets/b''))]"
    by simp
  from collect_resource_assets_first_three [OF c l] have t:
    "length [resource_of (hit (ascii ''kaggle.com/datasets/x/robotics-data'')),
           resource_of (hit (ascii ''github.com/datasets/a'')),
           resource_of (hit (ascii ''github.com/datasets/b''))] \<le> 3 \<and>
     ascii ''Predict churn.'' \<in> set [ascii ''Predict churn.'']"
    by (simp only: simp_thms)
  from c t show ?thesis by (rule conjI)
qed

text \<open>
  Claim C10. The keys of the dict returned by \<^verbatim>\<open>collect_resource_assets\<close> are exactly
  the use-case texts, each once; a use case whose three platform searches all raised is a
  key as well, with the empty list. (The research dict, in contrast, leaves out a query
  whose search raised.)
\<close>

theorem collect_resource_assets_keys:
  assumes "collect_resource_assets e use_cases s = (resource_map, s')"
  shows "fst ` set resource_map = set use_cases \<and> distinct (map fst resource_map) \<and>
         (\<forall>u \<in> set use_cases.
            (\<forall>k<3. isl (exa_search e (length (searches s) + 3 * last_index use_cases u + k)
                               (resource_call u (platforms ! k))))
            \<longrightarrow> map_of resource_map u = Some [])"
proof -
  from assms have loop: "use_case_loop e use_cases ([], s) = (resource_map, s')"
    by (simp add: collect_resource_assets_def)
  note inv = use_case_loop_inv [OF loop]
  have "\<forall>u \<in> set use_cases.
            (\<forall>k<3. isl (exa_search e (length (searches s) + 3 * last_index use_cases u + k)
                               (resource_call u (platforms ! k))))
            \<longrightarrow> map_of resource_map u = Some []"
  proof (intro ballI impI)
    fix u assume u: "u \<in> set use_cases"
      and f: "\<forall>k<3. isl (exa_search e (length (searches s) + 3 * last_index use_cases u + k)
                               (resource_call u (platforms ! k)))"
    have "platform_yield e (length (searches s) + 3 * last_index use_cases u) u k = []" if "k < 3" for k
      using f that by (auto simp: platform_yield_def split: sum.splits)
    then have "platform_yield e (length (searches s) + 3 * last_index use_cases u) u 0 = []"
      "platform_yield e (length (searches s) + 3 * last_index use_cases u) u 1 = []"
      "platform_yield e (length (searches s) + 3 * last_index use_cases u) u 2 = []"
      by simp_all
    with inv u show "map_of resource_map u = Some []" by simp
  qed
  moreover from inv have "fst ` set resource_map = set use_cases" by simp
  moreover from inv have "distinct (map fst resource_map)" by simp
  ultimately show ?thesis by blast
qed

theorem collect_resource_assets_keys_witness:
  "collect_resource_assets search_down_env [ascii ''A'', ascii ''B'', ascii ''A''] no_effects =
     ([(ascii ''A'', [] :: resource list), (ascii ''B'', [])],
      \<lparr>searches = map (resource_call (ascii ''A'')) platforms @ map (resource_call (ascii ''B'')) platforms @
                   map (resource_call (ascii ''A'')) platforms,
       ui = replicate 3 (resource_warning (ascii ''A'') (PyException (ascii ''quota exceeded''))) @
            replicate 3 (resource_warning (ascii ''B'') (PyException (ascii ''quota exceeded''))) @
            replicate 3 (resource_warning (ascii ''A'') (PyException (ascii ''quota exceeded'')))\<rparr>) \<and>
   fst ` set [(ascii ''A'', [] :: resource list), (ascii ''B'', [])] = set [ascii ''A'', ascii ''B'', ascii ''A''] \<and>
   map_of [(ascii ''A'', [] :: resource list), (ascii ''B'', [])] (ascii ''A'') = Some []"
proof -
  have c: "collect_resource_assets search_down_env [ascii ''A'', ascii ''B'', ascii ''A''] no_effects =
     ([(ascii ''A'', [] :: resource list), (ascii ''B'', [])],
      \<lparr>searches = map (resource_call (ascii ''A'')) platforms @ map (resource_call (ascii ''B'')) platforms @
                   map (resource_call (ascii ''A'')) platforms,
       ui = replicate 3 (resource_warning (ascii ''A'') (PyException (ascii ''quota exceeded''))) @
            replicate 3 (resource_warning (ascii ''B'') (PyException (ascii ''quota exceeded''))) @
            replicate 3 (resource_warning (ascii ''A'') (PyException (ascii ''quota exceeded'')))\<rparr>)"
    by (simp add: collect_resource_assets_def platforms_def search_def search_down_env_def
          no_effects_def numeral_3_eq_3 ascii_def)
  have f: "\<forall>k<3. isl (exa_search search_down_env
              (length (searches no_effects) + 3 * last_index [ascii ''A'', ascii ''B'', ascii ''A''] (ascii ''A'') + k)
              (resource_call (ascii ''A'') (platforms ! k)))"
    by (simp add: search_down_env_def ascii_def)
  have a: "ascii ''A'' \<in> set [ascii ''A'', ascii ''B'', ascii ''A'']" by simp
  note t = collect_resource_assets_keys [OF c]
  note k = t [THEN conjunct1]
  note b = t [THEN conjunct2, THEN conjunct2, THEN bspec, OF a, THEN mp, OF f]
  from k b have "fst ` set [(ascii ''A'', [] :: resource list), (ascii ''B'', [])] = set [ascii ''A'', ascii ''B'', ascii ''A''] \<and>
   map_of [(ascii ''A'', [] :: resource list), (ascii ''B'', [])] (ascii ''A'') = Some []" by (rule conjI)
  with c show ?thesis by (rule conjI)
qed

section \<open>Use-case generation fails\<close>

lemma dated_research:
  "research_company dated_env (ascii ''Acme Robotics'') no_effects =
     Inr ((dated_insights, ascii ''Industrial Robotics''), dated_effects)"
  by (simp add: research_company_def determine_industry_def dated_env_def str_strip_def
        py_isspace_def search_queries_def search_def no_effects_def insight_of_def
        demo_result_def dated_insights_def dated_effects_def ascii_def)

text \<open>
  Claim C9. When the call of the use-case assistant raises, \<^verbatim>\<open>generate_use_cases\<close>
  raises the same exception, nothing catches it, and the run ends with it after the
  research stage: there is no analysis and so no proposal document.
\<close>

theorem generate_use_cases_failure_aborts:
  assumes "research_company e company_name s = Inr ((research_insights, industry), s1)"
      and "generate_reply e (ascii ''use_case_generator'')
             (use_case_prompt e company_name industry research_insights) = Inl err"
  shows "generate_use_cases e company_name industry research_insights = Inl err \<and>
         run_analysis e company_name s = (Inl err, s1)"
  using assms by (simp add: generate_use_cases_def run_analysis_def)

theorem generate_use_cases_failure_aborts_witness:
  "research_company dated_env (ascii ''Acme Robotics'') no_effects =
     Inr ((dated_insights, ascii ''Industrial Robotics''), dated_effects) \<and>
   generate_reply dated_env (ascii ''use_case_generator'')
     (use_case_prompt dated_env (ascii ''Acme Robotics'') (ascii ''Industrial Robotics'') dated_insights) =
     Inl (PyException (ascii ''rate limit'')) \<and>
   generate_use_cases dated_env (ascii ''Acme Robotics'') (ascii ''Industrial Robotics'') dated_insights =
     Inl (PyException (ascii ''rate limit'')) \<and>
   run_analysis dated_env (ascii ''Acme Robotics'') no_effects =
     (Inl (PyException (ascii ''rate limit'')), dated_effects)"
proof -
  have g: "generate_reply dated_env (ascii ''use_case_generator'')
     (use_case_prompt dated_env (ascii ''Acme Robotics'') (ascii ''Industrial Robotics'') dated_insights) =
     Inl (PyException (ascii ''rate limit''))"
    by (simp add: dated_env_def ascii_def)
  from generate_use_cases_failure_aborts [OF dated_research g] dated_research g
  show ?thesis by simp
qed

section \<open>The proposal\<close>

lemma published_date_insight_of: "published_date (insight_of res) = None"
  by (simp add: insight_of_def)

lemma date_str_insight_of: "date_str (insight_of res) = []"
  by (simp add: date_str_def insight_of_def)

lemma date_str_present:
  "published_date i = Some d \<Longrightarrow> d \<noteq> ascii ''N/A'' \<Longrightarrow> date_str i = ascii '' ('' @ d @ ascii '')''"
  by (simp add: date_str_def)

lemma date_str_absent: "published_date i = None \<Longrightarrow> date_str i = []"
  by (simp add: date_str_def)

text \<open>
  Claim C3 at a search result that has a published date: the entry that
  \<^verbatim>\<open>research_company\<close> stores for it has no \<^verbatim>\<open>published_date\<close> key, and the proposal
  shows the title with no date beside it, although \<^verbatim>\<open>generate_final_proposal\<close> renders
  the date of an entry that has one.
\<close>

theorem research_company_drops_published_date:
  "exa_search dated_env 0 (research_call (ascii ''Industrial Robotics industry overview and trends'')) =
     Inr [\<lparr>res_title = ascii ''Robot arms in 2024'', res_url = ascii ''https://example.com/robots'',
           res_summary = ascii ''Cobots are spreading.'', res_published_date = Some (ascii ''2024-01-15'')\<rparr>] \<and>
   research_company dated_env (ascii ''Acme Robotics'') no_effects =
     Inr (([(ascii ''Industrial Robotics industry overview and trends'',
             [\<lparr>title = ascii ''Robot arms in 2024'', url = ascii ''https://example.com/robots'',
               snippet = ascii ''Cobots are spreading.'', published_date = None\<rparr>]),
            (ascii ''Acme Robotics strategic focus and market position'', []),
            (ascii ''Industrial Robotics technological innovations and future outlook'', [])],
           ascii ''Industrial Robotics''), dated_effects) \<and>
   generate_final_proposal dated_env (ascii ''Acme Robotics'') (ascii ''Industrial Robotics'') [] [] dated_insights =
     ascii ''# AI Strategy Analysis for Acme Robotics\<newline>\<newline>'' @
     ascii ''## Industry: Industrial Robotics\<newline>\<newline>'' @
     ascii ''*Generated on March 05, 2024*\<newline>\<newline>'' @
     ascii ''## Market Research Insights\<newline>'' @
     ascii ''### Industrial Robotics Industry Overview And Trends\<newline>\<newline>'' @
     ascii ''#### Robot arms in 2024\<newline>\<newline>'' @
     ascii ''Cobots are spreading.\<newline>\<newline>'' @
     ascii ''[Read more](https://example.com/robots)\<newline>\<newline>'' @
     ascii ''---\<newline>\<newline>'' @
     ascii ''### Acme Robotics Strategic Focus And Market Position\<newline>\<newline>'' @
     ascii ''### Industrial Robotics Technological Innovations And Future Outlook\<newline>\<newline>'' @
     ascii ''## Recommended AI/ML Use Cases\<newline>\<newline>''"
proof -
  have a: "exa_search dated_env 0 (research_call (ascii ''Industrial Robotics industry overview and trends'')) =
     Inr [\<lparr>res_title = ascii ''Robot arms in 2024'', res_url = ascii ''https://example.com/robots'',
           res_summary = ascii ''Cobots are spreading.'', res_published_date = Some (ascii ''2024-01-15'')\<rparr>]"
    by (simp add: dated_env_def demo_result_def ascii_def)
  have b: "research_company dated_env (ascii ''Acme Robotics'') no_effects =
     Inr (([(ascii ''Industrial Robotics industry overview and trends'',
             [\<lparr>title = ascii ''Robot arms in 2024'', url = ascii ''https://example.com/robots'',
               snippet = ascii ''Cobots are spreading.'', published_date = None\<rparr>]),
            (ascii ''Acme Robotics strategic focus and market position'', []),
            (ascii ''Industrial Robotics technological innovations and future outlook'', [])],
           ascii ''Industrial Robotics''), dated_effects)"
    using dated_research by (simp add: dated_insights_def ascii_def)
  have c: "generate_final_proposal dated_env (ascii ''Acme Robotics'') (ascii ''Industrial Robotics'') [] [] dated_insights =
     ascii ''# AI Strategy Analysis for Acme Robotics\<newline>\<newline>'' @
     ascii ''## Industry: Industrial Robotics\<newline>\<newline>'' @
     ascii ''*Generated on March 05, 2024*\<newline>\<newline>'' @
     ascii ''## Market Research Insights\<newline>'' @
     ascii ''### Industrial Robotics Industry Overview And Trends\<newline>\<newline>'' @
     ascii ''#### Robot arms in 2024\<newline>\<newline>'' @
     ascii ''Cobots are spreading.\<newline>\<newline>'' @
     ascii ''[Read more](https://example.com/robots)\<newline>\<newline>'' @
     ascii ''---\<newline>\<newline>'' @
     ascii ''### Acme Robotics Strategic Focus And Market Position\<newline>\<newline>'' @
     ascii ''### Industrial Robotics Technological Innovations And Future Outlook\<newline>\<newline>'' @
     ascii ''## Recommended AI/ML Use Cases\<newline>\<newline>''"
    by (simp add: generate_final_proposal_def dated_insights_def dated_env_def demo_clock_def
          strftime_B_d_Y_def month_name_def two_digits_def str_nat.simps add_query_def
          add_insight_def date_str_def str_title_def is_cased_def upper_char_def lower_char_def
          enumerate1_def ascii_def)
  from a b c show ?thesis by (intro conjI)
qed

text \<open>
  Claim C1, as stated, fails: the timestamp is no argument of
  \<^verbatim>\<open>generate_final_proposal\<close>, which reads the clock itself, so two calls with the same
  arguments on different days give different documents.
\<close>

theorem generate_final_proposal_clock_counterexample:
  "generate_final_proposal dated_env (ascii ''Acme Robotics'') (ascii ''Industrial Robotics'') [] [] [] \<noteq>
   generate_final_proposal next_day_env (ascii ''Acme Robotics'') (ascii ''Industrial Robotics'') [] [] []"
  by (simp add: generate_final_proposal_def dated_env_def next_day_env_def demo_clock_def
        strftime_B_d_Y_def month_name_def two_digits_def str_nat.simps enumerate1_def ascii_def)

text \<open>
  Claim C1, amended. The proposal is determined by the five arguments and the calendar
  date of the clock reading: two calls with the same arguments whose clock readings have
  the same year, month and day give the same document, whatever else differs between the
  two environments (the assembler calls no collaborator).
\<close>

theorem generate_final_proposal_date_only:
  assumes "year (datetime_now e1) = year (datetime_now e2)"
      and "month (datetime_now e1) = month (datetime_now e2)"
      and "day (datetime_now e1) = day (datetime_now e2)"
  shows "generate_final_proposal e1 company_name industry use_cases resource_map research_insights =
         generate_final_proposal e2 company_name industry use_cases resource_map research_insights"
  using assms by (simp add: generate_final_proposal_def strftime_B_d_Y_def)

theorem generate_final_proposal_date_only_witness:
  "year (datetime_now dated_env) = year (datetime_now evening_env) \<and>
   month (datetime_now dated_env) = month (datetime_now evening_env) \<and>
   day (datetime_now dated_env) = day (datetime_now evening_env) \<and>
   hour (datetime_now dated_env) \<noteq> hour (datetime_now evening_env) \<and>
   generate_final_proposal dated_env (ascii ''Acme Robotics'') (ascii ''Industrial Robotics'')
     [ascii ''Predict churn.''] [(ascii ''Predict churn.'', [resource_of (hit (ascii ''kaggle.com/datasets/x''))])]
     dated_insights =
   generate_final_proposal evening_env (ascii ''Acme Robotics'') (ascii ''Industrial Robotics'')
     [ascii ''Predict churn.''] [(ascii ''Predict churn.'', [resource_of (hit (ascii ''kaggle.com/datasets/x''))])]
     dated_insights"
proof -
  have y: "year (datetime_now dated_env) = year (datetime_now evening_env)"
    and m: "month (datetime_now dated_env) = month (datetime_now evening_env)"
    and d: "day (datetime_now dated_env) = day (datetime_now evening_env)"
    and h: "hour (datetime_now dated_env) \<noteq> hour (datetime_now evening_env)"
    by (simp_all add: dated_env_def evening_env_def demo_clock_def)
  from generate_final_proposal_date_only [OF y m d] y m d h show ?thesis
    by (intro conjI)
qed

section \<open>The filter of the resource collector\<close>

lemma startswith_iff: "startswith s sub \<longleftrightarrow> (\<exists>rest. s = sub @ rest)"
  by (induction s sub rule: startswith.induct) auto

lemma str_in_iff: "str_in sub s \<longleftrightarrow> substring sub s"
proof (induction s)
  case Nil
  then show ?case by (simp add: substring_def)
next
  case (Cons c cs)
  have "substring sub (c # cs) \<longleftrightarrow> (\<exists>rest. c # cs = sub @ rest) \<or> substring sub cs"
    unfolding substring_def
  proof
    assume "\<exists>pre post. c # cs = pre @ sub @ post"
    then obtain pre post where e: "c # cs = pre @ sub @ post" by blast
    show "(\<exists>rest. c # cs = sub @ rest) \<or> (\<exists>pre post. cs = pre @ sub @ post)"
    proof (cases pre)
      case Nil
      with e show ?thesis by auto
    next
      case (Cons a pre')
      with e have "cs = pre' @ sub @ post" by simp
      then show ?thesis by blast
    qed
  next
    assume "(\<exists>rest. c # cs = sub @ rest) \<or> (\<exists>pre post. cs = pre @ sub @ post)"
    then show "\<exists>pre post. c # cs = pre @ sub @ post"
    proof
      assume "\<exists>rest. c # cs = sub @ rest"
      then obtain rest where "c # cs = [] @ sub @ rest" by auto
      then show ?thesis by blast
    next
      assume "\<exists>pre post. cs = pre @ sub @ post"
      then obtain pre post where "cs = pre @ sub @ post" by blast
      then have "c # cs = (c # pre) @ sub @ post" by simp
      then show ?thesis by blast
    qed
  qed
  with Cons show ?case by (simp add: startswith_iff)
qed

lemma substring_lower: "substring token (str_lower s) \<longleftrightarrow> substring_ci token s"
proof
  assume "substring token (str_lower s)"
  then obtain pre post where "map lower_char s = pre @ token @ post"
    by (auto simp: substring_def str_lower_def)
  then obtain us vs where s1: "s = us @ vs" and "token @ post = map lower_char vs"
    by (auto simp: map_eq_append_conv)
  then obtain ms ps where s2: "vs = ms @ ps" and t: "token = map lower_char ms"
    by (auto simp: append_eq_map_conv)
  from s1 s2 t show "substring_ci token s"
    by (auto simp: substring_ci_def str_lower_def)
next
  assume "substring_ci token s"
  then obtain pre mid post where "s = pre @ mid @ post" and "map lower_char mid = token"
    by (auto simp: substring_ci_def str_lower_def)
  then have "str_lower s = map lower_char pre @ token @ map lower_char post"
    by (simp add: str_lower_def)
  then show "substring token (str_lower s)"
    unfolding substring_def by blast
qed

text \<open>
  Claim C7. For every platform of the fixed list, the collector keeps of the results of
  that platform's search exactly those whose URL contains the platform str and, up to
  case, one of the tokens \<^verbatim>\<open>dataset\<close> and \<^verbatim>\<open>data\<close>, each kept result as its url and
  title. For \<^verbatim>\<open>kaggle.com/datasets\<close> the result at
  \<^verbatim>\<open>kaggle.com/datasets/x/robotics-data\<close> is kept and the one at
  \<^verbatim>\<open>kaggle.com/notebooks/x\<close> is not.
\<close>

theorem platform_resources_filter:
  assumes "platform \<in> set platforms"
  shows "platform_resources platform results =
           map resource_of
             (filter (\<lambda>res. substring platform (res_url res) \<and>
                             (substring_ci (ascii ''dataset'') (res_url res) \<or>
                              substring_ci (ascii ''data'') (res_url res))) results)"
  by (simp add: platform_resources_def keeps_def str_in_iff substring_lower cong: filter_cong)


theorem platform_resources_filter_witness:
  "ascii ''kaggle.com/datasets'' \<in> set platforms \<and>
   platform_resources (ascii ''kaggle.com/datasets'')
     [hit (ascii ''kaggle.com/datasets/x/robotics-data''), hit (ascii ''kaggle.com/notebooks/x'')] =
     [resource_of (hit (ascii ''kaggle.com/datasets/x/robotics-data''))] \<and>
   map resource_of
     (filter (\<lambda>res. substring (ascii ''kaggle.com/datasets'') (res_url res) \<and>
                     (substring_ci (ascii ''dataset'') (res_url res) \<or>
                      substring_ci (ascii ''data'') (res_url res)))
        [hit (ascii ''kaggle.com/datasets/x/robotics-data''), hit (ascii ''kaggle.com/notebooks/x'')]) =
     [resource_of (hit (ascii ''kaggle.com/datasets/x/robotics-data''))]"
proof -
  have h: "ascii ''kaggle.com/datasets'' \<in> set platforms"
    by (simp add: platforms_def ascii_def)
  have a: "platform_resources (ascii ''kaggle.com/datasets'')
     [hit (ascii ''kaggle.com/datasets/x/robotics-data''), hit (ascii ''kaggle.com/notebooks/x'')] =
     [resource_of (hit (ascii ''kaggle.com/datasets/x/robotics-data''))]"
    by (simp add: platform_resources_def keeps_def hit_def str_lower_def lower_char_def ascii_def)
  note t = platform_resources_filter [OF h,
      of "[hit (ascii ''kaggle.com/datasets/x/robotics-data''), hit (ascii ''kaggle.com/notebooks/x'')]"]
  from h a trans [OF t [symmetric] a] show ?thesis by (intro conjI)
qed

section \<open>Parsing the use cases\<close>

lemma ascii_period: "ascii ''.'' = [46]"
  by (simp add: ascii_def)

lemma not_digit_period: "\<not> is_digit decimal 46"
  by (simp add: is_digit_def ascii_def)

lemma marker_len_marker:
  assumes "digits \<noteq> []" and "list_all (is_digit decimal) digits"
  shows "marker_len decimal (digits @ ascii ''.'' @ rest) = Some (length digits + 1)"
proof -
  from assms(2) have all: "\<forall>d\<in>set digits. is_digit decimal d" by (simp add: list_all_iff)
  then have "takeWhile (is_digit decimal) (digits @ ascii ''.'' @ rest) = digits"
    by (simp add: takeWhile_append2 not_digit_period ascii_period)
  moreover from all have "dropWhile (is_digit decimal) (digits @ ascii ''.'' @ rest) = ascii ''.'' @ rest"
    by (simp add: dropWhile_append2 not_digit_period ascii_period)
  ultimately show ?thesis using assms(1) by (simp add: marker_len_def ascii_period)
qed

lemma marker_len_Some:
  assumes "marker_len decimal s = Some n"
  shows "\<exists>digits rest. digits \<noteq> [] \<and> list_all (is_digit decimal) digits \<and> s = digits @ ascii ''.'' @ rest \<and>
           n = length digits + 1"
proof -
  let ?ds = "takeWhile (is_digit decimal) s"
  from assms have ne: "?ds \<noteq> []" and st: "startswith (dropWhile (is_digit decimal) s) (ascii ''.'')"
    and n: "n = length ?ds + 1"
    by (auto simp: marker_len_def Let_def split: if_splits)
  from st obtain rest where "dropWhile (is_digit decimal) s = ascii ''.'' @ rest"
    by (auto simp: startswith_iff)
  then have "s = ?ds @ ascii ''.'' @ rest"
    by (metis takeWhile_dropWhile_id)
  moreover have "list_all (is_digit decimal) ?ds"
    by (simp add: list_all_iff) (meson set_takeWhileD)
  ultimately show ?thesis using ne n by blast
qed

lemma marker_len_has_marker: "marker_len decimal s = Some n \<Longrightarrow> has_marker decimal s"
proof -
  assume "marker_len decimal s = Some n"
  from marker_len_Some [OF this] obtain digits rest where
    "digits \<noteq> []" "list_all (is_digit decimal) digits" "s = [] @ (digits @ ascii ''.'') @ rest"
    by auto
  then show ?thesis unfolding has_marker_def is_marker_def by blast
qed

lemma has_marker_Cons: "has_marker decimal cs \<Longrightarrow> has_marker decimal (c # cs)"
proof -
  assume "has_marker decimal cs"
  then obtain pre m post where "cs = pre @ m @ post" "is_marker decimal m"
    by (auto simp: has_marker_def)
  then have "c # cs = (c # pre) @ m @ post \<and> is_marker decimal m" by simp
  then show ?thesis unfolding has_marker_def by blast
qed

lemma has_marker_code: "has_marker decimal s = marker_somewhere decimal s"
proof (induction s)
  case Nil
  then show ?case by (simp add: has_marker_def is_marker_def)
next
  case (Cons c cs)
  show ?case
  proof
    assume "has_marker decimal (c # cs)"
    then obtain pre m post where e: "c # cs = pre @ m @ post" and m: "is_marker decimal m"
      by (auto simp: has_marker_def)
    show "marker_somewhere decimal (c # cs)"
    proof (cases pre)
      case Nil
      from m obtain digits where "digits \<noteq> []" "list_all (is_digit decimal) digits" "m = digits @ ascii ''.''"
        by (auto simp: is_marker_def)
      with e Nil have "marker_len decimal (c # cs) = Some (length digits + 1)"
        using marker_len_marker [of digits decimal post] by simp
      then show ?thesis by simp
    next
      case (Cons a pre')
      with e have "cs = pre' @ m @ post" by simp
      with m have "has_marker decimal cs" unfolding has_marker_def by blast
      with Cons.IH show ?thesis by simp
    qed
  next
    assume "marker_somewhere decimal (c # cs)"
    then consider "marker_len decimal (c # cs) \<noteq> None" | "marker_somewhere decimal cs" by auto
    then show "has_marker decimal (c # cs)"
    proof cases
      case 1
      then show ?thesis using marker_len_has_marker by blast
    next
      case 2
      with Cons.IH show ?thesis by (simp add: has_marker_Cons)
    qed
  qed
qed

lemma re_split_from_no_marker:
  "\<not> has_marker decimal s \<Longrightarrow> re_split_from decimal segment s = [segment @ s]"
proof (induction s arbitrary: segment)
  case Nil
  then show ?case by simp
next
  case (Cons c cs)
  from Cons.prems have "marker_len decimal (c # cs) = None" and "\<not> has_marker decimal cs"
    by (auto simp: has_marker_code)
  with Cons.IH [of "segment @ [c]"] show ?case by simp
qed


lemma marker_len_before_marker:
  assumes "is_marker decimal m" and "\<not> has_marker decimal (c # pre)" and "\<not> is_digit decimal (last (c # pre))"
  shows "marker_len decimal (c # pre @ m @ rest) = None"
proof (rule ccontr)
  assume "marker_len decimal (c # pre @ m @ rest) \<noteq> None"
  then obtain n where "marker_len decimal ((c # pre) @ m @ rest) = Some n" by auto
  from marker_len_Some [OF this] obtain digits r where
    ne: "digits \<noteq> []" and dig: "list_all (is_digit decimal) digits"
    and e: "(c # pre) @ m @ rest = digits @ ascii ''.'' @ r"
    by blast
  from append_eq_append_conv2 [THEN iffD1, OF e]
  consider us where "c # pre = digits @ us" "us @ m @ rest = ascii ''.'' @ r"
    | us where "(c # pre) @ us = digits"
    by blast
  then show False
  proof cases
    case 1
    show False
    proof (cases us)
      case Nil
      with 1 ne dig have "is_digit decimal (last (c # pre))"
        by (simp add: list_all_iff)
      with assms(3) show False by simp
    next
      case (Cons u us')
      with 1 have "c # pre = [] @ (digits @ ascii ''.'') @ us'" by (simp add: ascii_period)
      moreover from ne dig have "is_marker decimal (digits @ ascii ''.'')"
        unfolding is_marker_def by blast
      ultimately have "has_marker decimal (c # pre)"
        unfolding has_marker_def by blast
      with assms(2) show False by simp
    qed
  next
    case 2
    then have "set (c # pre) \<subseteq> set digits" by auto
    with dig have "is_digit decimal (last (c # pre))"
      by (metis last_in_set list.distinct(1) list_all_iff subsetD)
    with assms(3) show False by simp
  qed
qed

lemma re_split_from_first_marker:
  assumes "is_marker decimal m" and "\<not> has_marker decimal pre" and "pre = [] \<or> \<not> is_digit decimal (last pre)"
  shows "re_split_from decimal segment (pre @ m @ rest) = (segment @ pre) # re_split_from decimal [] rest"
  using assms(2,3)
proof (induction pre arbitrary: segment)
  case Nil
  from assms(1) obtain digits where ne: "digits \<noteq> []" and dig: "list_all (is_digit decimal) digits"
    and m: "m = digits @ ascii ''.''"
    by (auto simp: is_marker_def)
  from ne obtain d ds where ds: "digits = d # ds" by (cases digits) auto
  have "marker_len decimal (d # ds @ ascii ''.'' @ rest) = Some (length (d # ds) + 1)"
    using marker_len_marker [OF ne dig, of rest] by (simp add: ds)
  then show ?case by (simp add: m ds ascii_period)
next
  case (Cons c pre)
  from Cons.prems have nd: "\<not> is_digit decimal (last (c # pre))" by simp
  have none: "marker_len decimal (c # pre @ m @ rest) = None"
    by (rule marker_len_before_marker [OF assms(1) Cons.prems(1) nd])
  from Cons.prems(1) have a: "\<not> has_marker decimal pre"
    using has_marker_Cons by blast
  from nd have b: "pre = [] \<or> \<not> is_digit decimal (last pre)" by (cases pre) auto
  from Cons.IH [OF a b, of "segment @ [c]"] none show ?case by simp
qed



text \<open>
  Claim C6, as stated, fails for a reply with no marker that is empty (or all white
  space): the result is the empty list, not a list of one element.
\<close>

theorem parse_use_cases_blank_counterexample:
  "\<not> has_marker (unicode_decimal empty_reply_env) [] \<and>
   parse_use_cases (unicode_decimal empty_reply_env) [] = [] \<and>
   parse_use_cases (unicode_decimal empty_reply_env) [] \<noteq> [str_strip []]"
  by (simp add: has_marker_code parse_use_cases_def re_split_def str_strip_def)

text \<open>
  Claim C6, amended. The use cases are the segments of the reply text between its
  numbered-list markers, each stripped, the segments that are empty after stripping left
  out; the segments are those of \<^verbatim>\<open>re.split\<close>, which cuts at the first marker (the text
  before it has no marker and does not end in a digit) and goes on behind it, and returns
  a text with no marker whole. So \<^verbatim>\<open>1. Improve routing. 2. Predict churn.\<close> gives the two
  use cases, a reply with no marker that is not blank gives the one-element list of the
  stripped reply, and a blank reply gives the empty list.
\<close>

theorem parse_use_cases_markers:
  "(generate_reply e (ascii ''use_case_generator'')
      (use_case_prompt e company_name industry research_insights) = Inr (ReplyText reply) \<longrightarrow>
    generate_use_cases e company_name industry research_insights =
      Inr (parse_use_cases (unicode_decimal e) reply)) \<and>
   parse_use_cases (unicode_decimal e) reply =
     map str_strip (filter (\<lambda>segment. str_strip segment \<noteq> [])
                      (re_split (unicode_decimal e) reply)) \<and>
   (\<forall>pre m rest. reply = pre @ m @ rest \<and> is_marker (unicode_decimal e) m \<and>
                  \<not> has_marker (unicode_decimal e) pre \<and>
                  (pre = [] \<or> \<not> is_digit (unicode_decimal e) (last pre)) \<longrightarrow>
                  re_split (unicode_decimal e) reply =
                    pre # re_split (unicode_decimal e) rest) \<and>
   (\<not> has_marker (unicode_decimal e) reply \<longrightarrow> re_split (unicode_decimal e) reply = [reply]) \<and>
   (\<not> has_marker (unicode_decimal e) reply \<and> str_strip reply \<noteq> [] \<longrightarrow>
      parse_use_cases (unicode_decimal e) reply = [str_strip reply]) \<and>
   (\<not> has_marker (unicode_decimal e) reply \<and> str_strip reply = [] \<longrightarrow>
      parse_use_cases (unicode_decimal e) reply = []) \<and>
   parse_use_cases (unicode_decimal e) (ascii ''1. Improve routing. 2. Predict churn.'') =
     [ascii ''Improve routing.'', ascii ''Predict churn.'']"
proof -
  let ?d = "unicode_decimal e"
  have g: "generate_reply e (ascii ''use_case_generator'')
      (use_case_prompt e company_name industry research_insights) = Inr (ReplyText reply) \<longrightarrow>
    generate_use_cases e company_name industry research_insights =
      Inr (parse_use_cases ?d reply)"
    by (simp add: generate_use_cases_def)
  have p: "parse_use_cases ?d reply =
     map str_strip (filter (\<lambda>segment. str_strip segment \<noteq> []) (re_split ?d reply))"
    by (simp add: parse_use_cases_def)
  have f: "\<forall>pre m rest. reply = pre @ m @ rest \<and> is_marker ?d m \<and> \<not> has_marker ?d pre \<and>
                  (pre = [] \<or> \<not> is_digit ?d (last pre)) \<longrightarrow>
                  re_split ?d reply = pre # re_split ?d rest"
    using re_split_from_first_marker [of ?d _ _ "[]"] by (simp add: re_split_def)
  have n: "\<not> has_marker ?d reply \<longrightarrow> re_split ?d reply = [reply]"
    using re_split_from_no_marker [of ?d reply "[]"] by (simp add: re_split_def)
  have n1: "\<not> has_marker ?d reply \<and> str_strip reply \<noteq> [] \<longrightarrow>
      parse_use_cases ?d reply = [str_strip reply]"
    using n by (simp add: parse_use_cases_def)
  have n2: "\<not> has_marker ?d reply \<and> str_strip reply = [] \<longrightarrow> parse_use_cases ?d reply = []"
    using n by (simp add: parse_use_cases_def)
  have x: "parse_use_cases ?d (ascii ''1. Improve routing. 2. Predict churn.'') =
     [ascii ''Improve routing.'', ascii ''Predict churn.'']"
    by (simp add: parse_use_cases_def re_split_def marker_len_def is_digit_def str_strip_def
          py_isspace_def ascii_def)
  from g p f n n1 n2 x show ?thesis by (intro conjI)
qed


theorem parse_use_cases_markers_witness:
  "generate_use_cases single_reply_env (ascii ''Acme Robotics'') (ascii ''Industrial Robotics'') [] =
     Inr [ascii ''A single unified recommendation engine.''] \<and>
   \<not> has_marker arabic_indic (ascii ''A single unified recommendation engine.'') \<and>
   re_split arabic_indic (ascii ''A single unified recommendation engine.'') =
     [ascii ''A single unified recommendation engine.''] \<and>
   is_marker arabic_indic (ascii ''1.'') \<and>
   re_split arabic_indic (ascii ''1. Improve routing. 2. Predict churn.'') =
     [] # re_split arabic_indic (ascii '' Improve routing. 2. Predict churn.'') \<and>
   is_marker arabic_indic [0x661, 0x662, 46] \<and>
   re_split arabic_indic (ascii ''See '' @ [0x661, 0x662, 46] @ ascii '' Predict churn.'') =
     ascii ''See '' # re_split arabic_indic (ascii '' Predict churn.'') \<and>
   \<not> has_marker arabic_indic [0x20, 0xA0, 0x2003, 0x0A] \<and>
   str_strip [0x20, 0xA0, 0x2003, 0x0A] = [] \<and>
   parse_use_cases arabic_indic [0x20, 0xA0, 0x2003, 0x0A] = []"
proof -
  let ?one = "ascii ''A single unified recommendation engine.''"
  let ?two = "ascii ''1. Improve routing. 2. Predict churn.''"
  let ?three = "ascii ''See '' @ [0x661, 0x662, 46] @ ascii '' Predict churn.''"
  let ?blank = "[0x20, 0xA0, 0x2003, 0x0A] :: str"
  have d: "unicode_decimal single_reply_env = arabic_indic"
    by (simp add: single_reply_env_def)
  note t1 = parse_use_cases_markers [of single_reply_env "ascii ''Acme Robotics''"
      "ascii ''Industrial Robotics''" "[]" ?one, unfolded d]
  note t2 = parse_use_cases_markers [of single_reply_env "ascii ''Acme Robotics''"
      "ascii ''Industrial Robotics''" "[]" ?two, unfolded d]
  note t3 = parse_use_cases_markers [of single_reply_env "ascii ''Acme Robotics''"
      "ascii ''Industrial Robotics''" "[]" ?three, unfolded d]
  note t4 = parse_use_cases_markers [of single_reply_env "ascii ''Acme Robotics''"
      "ascii ''Industrial Robotics''" "[]" ?blank, unfolded d]
  have r: "generate_reply single_reply_env (ascii ''use_case_generator'')
      (use_case_prompt single_reply_env (ascii ''Acme Robotics'') (ascii ''Industrial Robotics'') []) =
      Inr (ReplyText ?one)"
    by (simp add: single_reply_env_def)
  have h1: "\<not> has_marker arabic_indic ?one"
    by (simp add: has_marker_code marker_len_def is_digit_def ascii_def)
  have s1: "str_strip ?one = ?one"
    by (simp add: str_strip_def py_isspace_def ascii_def)
  have ne1: "str_strip ?one \<noteq> []"
    by (simp add: s1) (simp add: ascii_def)
  note g1 = t1 [THEN conjunct1, THEN mp, OF r]
  note p1 = t1 [THEN conjunct2, THEN conjunct2, THEN conjunct2, THEN conjunct2,
      THEN conjunct1, THEN mp, OF conjI [OF h1 ne1]]
  have a: "generate_use_cases single_reply_env (ascii ''Acme Robotics'')
      (ascii ''Industrial Robotics'') [] = Inr [?one]"
    by (simp only: g1 p1 s1)
  note b = t1 [THEN conjunct2, THEN conjunct2, THEN conjunct2, THEN conjunct1, THEN mp, OF h1]
  have m: "is_marker arabic_indic (ascii ''1.'')"
    unfolding is_marker_def
    by (rule exI [of _ "ascii ''1''"]) (simp add: is_digit_def ascii_def)
  have h2: "\<not> has_marker arabic_indic []"
    by (simp add: has_marker_code)
  have e2: "?two = [] @ ascii ''1.'' @ ascii '' Improve routing. 2. Predict churn.''"
    by (simp add: ascii_def)
  note c = t2 [THEN conjunct2, THEN conjunct2, THEN conjunct1, rule_format,
      OF conjI [OF e2 conjI [OF m conjI [OF h2 disjI1 [OF refl]]]]]
  have m3: "is_marker arabic_indic [0x661, 0x662, 46]"
    unfolding is_marker_def
    by (rule exI [of _ "[0x661, 0x662]"]) (simp add: is_digit_def arabic_indic_def ascii_def)
  have h3: "\<not> has_marker arabic_indic (ascii ''See '')"
    by (simp add: has_marker_code marker_len_def is_digit_def ascii_def)
  have l3: "ascii ''See '' = [] \<or> \<not> is_digit arabic_indic (last (ascii ''See ''))"
    by (simp add: is_digit_def ascii_def)
  have e3: "?three = ascii ''See '' @ [0x661, 0x662, 46] @ ascii '' Predict churn.''"
    by simp
  note c3 = t3 [THEN conjunct2, THEN conjunct2, THEN conjunct1, rule_format,
      OF conjI [OF e3 conjI [OF m3 conjI [OF h3 l3]]]]
  have h4: "\<not> has_marker arabic_indic ?blank"
    by (simp add: has_marker_code marker_len_def is_digit_def arabic_indic_def ascii_def)
  have s4: "str_strip ?blank = []"
    by (simp add: str_strip_def py_isspace_def)
  note d4 = t4 [THEN conjunct2, THEN conjunct2, THEN conjunct2, THEN conjunct2,
      THEN conjunct2, THEN conjunct1, THEN mp, OF conjI [OF h4 s4]]
  from a h1 b m c m3 c3 h4 s4 d4 show ?thesis by (intro conjI)
qed

end
